theory Spec2Isabelle
  imports Complex_Main
begin

section \<open>Numbers, text and errors\<close>

text \<open>
  The program computes with Python floats. They are modelled as exact rationals: a decimal
  literal of the source (\<open>.65\<close>, \<open>3.82\<close>) is the rational it denotes, and \<open>+\<close>, \<open>-\<close>,
  \<open>*\<close>, \<open>/\<close> are exact. Not-a-number and the infinities have no counterpart. Every
  statement below is a statement about this exact-arithmetic reading of the code; the
  binary representation error of a double (about 1 part in \<open>10 ^ 16\<close>) is not modelled.

  Python's \<open>round(x, n)\<close> rounds to \<open>n\<close> decimals, a tie going to the even neighbour;
  \<open>round(x)\<close> is the same rounding to an \<open>int\<close>.
\<close>

definition round_half_even :: "rat \<Rightarrow> int" where
  "round_half_even x =
     (let f = \<lfloor>x\<rfloor>; d = x - of_int f
      in if d < 1 / 2 then f
         else if 1 / 2 < d then f + 1
         else if even f then f else f + 1)"

definition py_round :: "rat \<Rightarrow> nat \<Rightarrow> rat" where
  "py_round x n = of_int (round_half_even (x * 10 ^ n)) / 10 ^ n"

text \<open>\<open>math.sin(math.radians(45))\<close>, as Python prints it.\<close>

definition sin_45 :: rat where
  "sin_45 = 0.7071067811865475"

text \<open>\<open>str\<close> of an \<open>int\<close>: its decimal digits, with a leading minus sign when negative.\<close>

fun str_nat :: "nat \<Rightarrow> string" where
  "str_nat n =
     (if n < 10 then [''0123456789'' ! n]
      else str_nat (n div 10) @ [''0123456789'' ! (n mod 10)])"

definition str_int :: "int \<Rightarrow> string" where
  "str_int i = (if i < 0 then CHR ''-'' # str_nat (nat (- i)) else str_nat (nat i))"

text \<open>
  An attribute holds either the text that \<open>input()\<close> returned or a float. \<open>float(value)\<close>
  leaves a float as it is and parses a string; the parser of Python's \<open>float\<close> is a
  parameter \<open>parse\<close> of the model, \<open>None\<close> where Python raises.

  Every exception the program raises is a \<open>ValueError\<close>. The model keeps apart the one
  raised by a failed conversion (\<open>ConversionError\<close>, carrying the offending text) and the
  ones the program raises itself (\<open>ValueError\<close>, carrying the message). \<open>KeyError\<close> and
  \<open>IndexError\<close> are what a dictionary lookup and a list index raise when they miss.
\<close>

datatype pyval = PyStr string | PyFloat rat

datatype error = ConversionError string | ValueError string | KeyError string | IndexError

definition py_float :: "(string \<Rightarrow> rat option) \<Rightarrow> pyval \<Rightarrow> error + rat" where
  "py_float parse v =
     (case v of
        PyFloat x \<Rightarrow> Inr x
      | PyStr s \<Rightarrow> (case parse s of None \<Rightarrow> Inl (ConversionError s) | Some x \<Rightarrow> Inr x))"

section \<open>thread_mill.py: ScrewThread and CuttingTool\<close>

text \<open>
  The attributes of an object, in the order \<open>__init__\<close> assigns them, which is the order
  \<open>vars(self).items()\<close> yields them. The type parameter is what the attributes hold:
  \<open>pyval\<close> before validation, \<open>rat\<close> after it (\<open>validate\<close> overwrites every attribute
  with its float).
\<close>

record 'a ScrewThread =
  major_diameter :: 'a
  minor_diameter :: 'a
  depth :: 'a
  start_plane :: 'a
  tpi :: 'a
  pitch :: 'a

record 'a CuttingTool =
  diameter :: 'a
  flutes :: 'a
  speed :: 'a
  feed :: 'a
  rpm :: 'a

definition ScrewThread_init :: "pyval \<Rightarrow> pyval \<Rightarrow> pyval \<Rightarrow> pyval \<Rightarrow> pyval \<Rightarrow> pyval ScrewThread" where
  "ScrewThread_init major minor depth' start pitch' =
     \<lparr>major_diameter = major, minor_diameter = minor, depth = depth',
      start_plane = start, tpi = PyFloat 0.0, pitch = pitch'\<rparr>"

definition CuttingTool_init :: "pyval \<Rightarrow> pyval \<Rightarrow> pyval \<Rightarrow> pyval \<Rightarrow> pyval CuttingTool" where
  "CuttingTool_init diameter' flutes' speed' feed' =
     \<lparr>diameter = diameter', flutes = flutes', speed = speed', feed = feed',
      rpm = PyFloat 0.0\<rparr>"

text \<open>
  One round of the loop in \<open>validate\<close>: convert the attribute, then raise if it has to be
  positive and is not. \<open>positive\<close> is \<open>key != 'start_plane'\<close> for a thread and always true
  for a tool.
\<close>

definition validate_item :: "(string \<Rightarrow> rat option) \<Rightarrow> bool \<Rightarrow> string \<Rightarrow> pyval \<Rightarrow> error + rat" where
  "validate_item parse positive key value =
     (case py_float parse value of
        Inl e \<Rightarrow> Inl e
      | Inr x \<Rightarrow> if positive \<and> x \<le> 0.0 then Inl (ValueError (key @ '' must be > 0.0''))
                 else Inr x)"

definition ScrewThread_validate :: "(string \<Rightarrow> rat option) \<Rightarrow> pyval ScrewThread \<Rightarrow> error + rat ScrewThread" where
  "ScrewThread_validate parse self =
     (case validate_item parse True ''major_diameter'' (major_diameter self) of Inl e \<Rightarrow> Inl e | Inr major \<Rightarrow>
     (case validate_item parse True ''minor_diameter'' (minor_diameter self) of Inl e \<Rightarrow> Inl e | Inr minor \<Rightarrow>
     (case validate_item parse True ''depth'' (depth self) of Inl e \<Rightarrow> Inl e | Inr depth' \<Rightarrow>
     (case validate_item parse False ''start_plane'' (start_plane self) of Inl e \<Rightarrow> Inl e | Inr start \<Rightarrow>
     (case validate_item parse True ''tpi'' (tpi self) of Inl e \<Rightarrow> Inl e | Inr tpi' \<Rightarrow>
     (case validate_item parse True ''pitch'' (pitch self) of Inl e \<Rightarrow> Inl e | Inr pitch' \<Rightarrow>
        if minor \<ge> major
        then Inl (ValueError ''Minor diameter must be less than Major diameter'')
        else Inr \<lparr>major_diameter = major, minor_diameter = minor, depth = depth',
                  start_plane = start, tpi = tpi', pitch = pitch'\<rparr>))))))"

definition CuttingTool_validate :: "(string \<Rightarrow> rat option) \<Rightarrow> pyval CuttingTool \<Rightarrow> error + rat CuttingTool" where
  "CuttingTool_validate parse self =
     (case validate_item parse True ''diameter'' (diameter self) of Inl e \<Rightarrow> Inl e | Inr diameter' \<Rightarrow>
     (case validate_item parse True ''flutes'' (flutes self) of Inl e \<Rightarrow> Inl e | Inr flutes' \<Rightarrow>
     (case validate_item parse True ''speed'' (speed self) of Inl e \<Rightarrow> Inl e | Inr speed' \<Rightarrow>
     (case validate_item parse True ''feed'' (feed self) of Inl e \<Rightarrow> Inl e | Inr feed' \<Rightarrow>
     (case validate_item parse True ''rpm'' (rpm self) of Inl e \<Rightarrow> Inl e | Inr rpm' \<Rightarrow>
        Inr \<lparr>diameter = diameter', flutes = flutes', speed = speed', feed = feed',
             rpm = rpm'\<rparr>)))))"

section \<open>thread_mill.py: BodyDetails\<close>

definition calc_pass_percentages :: "int \<Rightarrow> error + rat list" where
  "calc_pass_percentages passes =
     (if \<not> (0 < passes \<and> passes < 5)
      then Inl (ValueError (str_int passes @ '' is not a valid option for number of passes.''))
      else if passes = 1 then Inr [1.0]
      else if passes = 2 then Inr [0.65, 0.35]
      else if passes = 3 then Inr [0.50, 0.30, 0.20]
      else Inr [0.40, 0.27, 0.20, 0.13])"

text \<open>
  The loop of \<open>calc_toolpath_radii\<close> (and, word for word, of \<open>get_toolpath_radii\<close> in
  tmill_dict.py): the state is the list \<open>radii\<close> built so far and \<open>previous_radius\<close>.
\<close>

fun toolpath_radii_loop :: "rat \<Rightarrow> rat \<Rightarrow> rat list \<Rightarrow> rat list \<Rightarrow> rat \<Rightarrow> rat list" where
  "toolpath_radii_loop base_radius total_stock [] radii previous_radius = radii"
| "toolpath_radii_loop base_radius total_stock (i # passes) radii previous_radius =
     (let current_radius = py_round (base_radius + total_stock * i + previous_radius) 4
      in toolpath_radii_loop base_radius total_stock passes (radii @ [current_radius])
           (current_radius - base_radius))"

definition calc_toolpath_radii :: "rat ScrewThread \<Rightarrow> rat list \<Rightarrow> rat \<Rightarrow> rat list" where
  "calc_toolpath_radii thread passes tool_diameter =
     (let total_stock = py_round ((major_diameter thread - minor_diameter thread) / 2.0) 5;
          base_radius = py_round ((minor_diameter thread - tool_diameter) / 2.0) 5
      in toolpath_radii_loop base_radius total_stock passes [] 0.0)"

fun lead_arcs_loop :: "rat list \<Rightarrow> rat list \<Rightarrow> rat list" where
  "lead_arcs_loop [] arcs = arcs"
| "lead_arcs_loop (radius # radii) arcs = lead_arcs_loop radii (arcs @ [py_round (radius * sin_45) 4])"

definition calc_lead_arcs :: "rat list \<Rightarrow> rat list" where
  "calc_lead_arcs radii = lead_arcs_loop radii []"

text \<open>
  \<open>calc_adjusted_feed\<close> and \<open>calc_feed_rate\<close> are methods: they read \<open>self.radii\<close>, which
  \<open>__init__\<close> has set by the time it calls them. The model passes that list.
\<close>

fun adjusted_feed_loop :: "rat CuttingTool \<Rightarrow> rat list \<Rightarrow> rat list \<Rightarrow> rat list" where
  "adjusted_feed_loop tool [] adjusted_feed = adjusted_feed"
| "adjusted_feed_loop tool (radius # radii) adjusted_feed =
     adjusted_feed_loop tool radii
       (adjusted_feed @ [feed tool * (radius * 2.0) / (radius * 2.0 + diameter tool)])"

definition calc_adjusted_feed :: "rat list \<Rightarrow> rat CuttingTool \<Rightarrow> rat list" where
  "calc_adjusted_feed self_radii tool = adjusted_feed_loop tool self_radii []"

fun feed_rates_loop :: "rat CuttingTool \<Rightarrow> rat list \<Rightarrow> rat list \<Rightarrow> rat list" where
  "feed_rates_loop tool [] feed_rates = feed_rates"
| "feed_rates_loop tool (feed_per_tooth # feeds) feed_rates =
     feed_rates_loop tool feeds (feed_rates @ [feed_per_tooth * flutes tool * rpm tool])"

definition calc_feed_rate :: "rat list \<Rightarrow> rat CuttingTool \<Rightarrow> rat list" where
  "calc_feed_rate self_radii tool = feed_rates_loop tool (calc_adjusted_feed self_radii tool) []"

record BodyDetails =
  passes :: "rat list"
  radii :: "rat list"
  lead_arcs :: "rat list"
  feed_rates :: "rat list"
  top_plane :: rat
  lead_z :: rat
  start_z :: rat

text \<open>
  \<open>BodyDetails.__init__\<close>. The attribute \<open>self.feed\<close> is the field \<open>feed_rates\<close> here
  (\<open>feed\<close> is the tool's feed per tooth). The validated thread and tool are returned with
  the plan, since \<open>validate\<close> changed the caller's objects and \<open>main\<close> goes on using them.
\<close>

definition BodyDetails_init ::
  "(string \<Rightarrow> rat option) \<Rightarrow> pyval ScrewThread \<Rightarrow> pyval CuttingTool \<Rightarrow> int
     \<Rightarrow> error + (BodyDetails \<times> rat ScrewThread \<times> rat CuttingTool)" where
  "BodyDetails_init parse thread0 tool0 number_of_passes =
     (case ScrewThread_validate parse thread0 of Inl e \<Rightarrow> Inl e | Inr thread \<Rightarrow>
     (case CuttingTool_validate parse tool0 of Inl e \<Rightarrow> Inl e | Inr tool \<Rightarrow>
        if diameter tool > minor_diameter thread
        then Inl (ValueError ''Tool diameter must be less than Minor diameter.'')
        else
          (case calc_pass_percentages number_of_passes of Inl e \<Rightarrow> Inl e | Inr passes' \<Rightarrow>
             (let radii' = calc_toolpath_radii thread passes' (diameter tool);
                  lead_arcs' = calc_lead_arcs radii';
                  feed' = calc_feed_rate radii' tool;
                  lead_z' = py_round (0.125 * pitch thread) 4
              in Inr (\<lparr>passes = passes', radii = radii', lead_arcs = lead_arcs',
                        feed_rates = feed', top_plane = start_plane thread, lead_z = lead_z',
                        start_z = - (depth thread + lead_z')\<rparr>,
                      thread, tool)))))"

section \<open>thread_mill.py: the g-code text\<close>

text \<open>
  \<open>str\<close> of a float (also what \<open>'{}'.format\<close> prints) is a parameter \<open>str_float\<close> of the
  model: Python's shortest-repr printing is a library function.
\<close>

definition post_begin :: "rat \<Rightarrow> string" where
  "post_begin rpm' = ''S'' @ str_int (round_half_even rpm') @ '' M3\<newline>\<newline>''"

text \<open>The value assigned to \<open>g_code\<close> in one round of the loop of \<open>post_body\<close>.\<close>

definition post_body_g_code ::
  "(rat \<Rightarrow> string) \<Rightarrow> BodyDetails \<Rightarrow> string \<Rightarrow> rat \<Rightarrow> string \<Rightarrow> rat \<times> rat \<times> rat \<Rightarrow> string" where
  "post_body_g_code str_float toolpath top_plane' rapid_feed pitch' item =
     (case item of (radius, lead_arc, feed0) \<Rightarrow>
        (let feed' = py_round feed0 4;
             start_x = py_round (lead_arc * sin_45) 4;
             start_y = - start_x
         in ''G90 G0 Z'' @ top_plane' @ ''\<newline>''
            @ ''G91 G01 Z'' @ str_float (start_z toolpath) @ '' F'' @ str_float rapid_feed
              @ ''\<newline>''
            @ ''G01 X'' @ str_float start_x @ '' Y'' @ str_float start_y @ '' F''
              @ str_float feed' @ ''\<newline>''
            @ ''G03 X'' @ str_float (py_round (radius - start_x) 4) @ '' Y''
              @ str_float (- start_y) @ '' Z'' @ str_float (lead_z toolpath) @ '' I0.0 J''
              @ str_float (- start_y) @ '' F'' @ str_float feed' @ ''\<newline>''
            @ ''G03 X0.0 Y0.0 Z'' @ pitch' @ '' I'' @ str_float (py_round (- radius) 4)
              @ '' J0.0 F'' @ str_float feed' @ ''\<newline>''
            @ ''G03 X'' @ str_float (- start_x) @ '' Y'' @ str_float (- start_y) @ '' Z''
              @ str_float (lead_z toolpath) @ '' I'' @ str_float (- start_x) @ '' J0.0 F''
              @ str_float feed' @ ''\<newline>''
            @ ''G01 X'' @ str_float (- start_x) @ '' Y'' @ str_float start_y @ '' F''
              @ str_float rapid_feed @ ''\<newline>\<newline>''))"

text \<open>
  \<open>g_code_out\<close> is kept as the list of the strings appended to it, in order; the string
  the function returns is their concatenation. \<open>append_times n x out\<close> is
  \<open>for _ in range(n): out += x\<close>.
\<close>

fun append_times :: "nat \<Rightarrow> 'a \<Rightarrow> 'a list \<Rightarrow> 'a list" where
  "append_times 0 x out = out"
| "append_times (Suc n) x out = append_times n x (out @ [x])"

fun post_body_loop ::
  "(rat \<times> rat \<times> rat \<Rightarrow> string) \<Rightarrow> (rat \<times> rat \<times> rat) list \<Rightarrow> string list \<times> string
     \<Rightarrow> string list \<times> string" where
  "post_body_loop block [] state = state"
| "post_body_loop block (item # items) state =
     (case state of (g_code_out, g_code) \<Rightarrow>
        (let g_code' = block item
         in post_body_loop block items (g_code_out @ [g_code'], g_code')))"

definition post_body_parts ::
  "(rat \<Rightarrow> string) \<Rightarrow> BodyDetails \<Rightarrow> rat ScrewThread \<Rightarrow> int \<Rightarrow> rat \<Rightarrow> string list" where
  "post_body_parts str_float toolpath thread finish_passes rapid_feed =
     (let top_plane' = str_float (top_plane toolpath);
          rapid_feed' = py_round rapid_feed 4;
          pitch' = str_float (py_round (pitch thread) 4)
      in case post_body_loop (post_body_g_code str_float toolpath top_plane' rapid_feed' pitch')
                (zip (radii toolpath) (zip (lead_arcs toolpath) (feed_rates toolpath)))
                ([], [])
         of (g_code_out, g_code) \<Rightarrow>
           if finish_passes > 1 then append_times (nat (finish_passes - 1)) g_code g_code_out
           else g_code_out)"

definition post_body ::
  "(rat \<Rightarrow> string) \<Rightarrow> BodyDetails \<Rightarrow> rat ScrewThread \<Rightarrow> int \<Rightarrow> rat \<Rightarrow> string" where
  "post_body str_float toolpath thread finish_passes rapid_feed =
     concat (post_body_parts str_float toolpath thread finish_passes rapid_feed)"

definition post_end :: string where
  "post_end = ''M99\<newline>%\<newline>''"

text \<open>
  What \<open>main\<close> writes to the g-code file once the plan is built and the number of finish
  passes has passed its check: \<open>post_begin\<close>, \<open>post_body\<close> with a rapid feed of 20.0,
  \<open>post_end\<close>.
\<close>

definition main_g_code_file ::
  "(rat \<Rightarrow> string) \<Rightarrow> BodyDetails \<Rightarrow> rat ScrewThread \<Rightarrow> rat CuttingTool \<Rightarrow> int \<Rightarrow> string" where
  "main_g_code_file str_float toolpath thread tool finish_passes =
     post_begin (rpm tool) @ post_body str_float toolpath thread finish_passes 20.0 @ post_end"

section \<open>tmill_dict.py\<close>

text \<open>
  A dictionary is the list of its items in insertion order, the order \<open>items()\<close> yields
  them. The answers to the prompts are arguments: the strings \<open>input()\<close> returned.
  \<open>int\<close> of a string is the parameter \<open>parse_int\<close>, \<open>None\<close> where Python raises.
\<close>

definition dict_get :: "(string \<times> 'v) list \<Rightarrow> string \<Rightarrow> error + 'v" where
  "dict_get d key = (case map_of d key of None \<Rightarrow> Inl (KeyError key) | Some v \<Rightarrow> Inr v)"

definition list_get :: "'a list \<Rightarrow> nat \<Rightarrow> error + 'a" where
  "list_get xs index = (if index < length xs then Inr (xs ! index) else Inl IndexError)"

text \<open>
  The loop of \<open>get_thread_info\<close>. \<open>float(value)\<close> is evaluated for every key, in the test
  or in the assignment, so a string that does not convert raises whatever the key.
\<close>

fun get_thread_info_loop :: "(string \<Rightarrow> rat option) \<Rightarrow> (string \<times> string) list \<Rightarrow> error + (string \<times> rat) list" where
  "get_thread_info_loop parse [] = Inr []"
| "get_thread_info_loop parse ((key, value) # items) =
     (case parse value of
        None \<Rightarrow> Inl (ConversionError value)
      | Some x \<Rightarrow>
          if key \<noteq> ''Starting plane'' \<and> x \<le> 0.0 then Inl (ValueError (key @ '' must be > 0.0''))
          else (case get_thread_info_loop parse items of
                  Inl e \<Rightarrow> Inl e
                | Inr threads \<Rightarrow> Inr ((key, x) # threads)))"

definition get_thread_info ::
  "(string \<Rightarrow> rat option) \<Rightarrow> string \<Rightarrow> string \<Rightarrow> string \<Rightarrow> string \<Rightarrow> string \<Rightarrow> error + (string \<times> rat) list" where
  "get_thread_info parse major minor depth' start tpi' =
     (case get_thread_info_loop parse
             [(''Major diameter'', major), (''Minor diameter'', minor), (''Thread depth'', depth'),
              (''Starting plane'', start), (''Threads per inch'', tpi')]
      of Inl e \<Rightarrow> Inl e | Inr threads \<Rightarrow>
     (case dict_get threads ''Minor diameter'' of Inl e \<Rightarrow> Inl e | Inr minor' \<Rightarrow>
     (case dict_get threads ''Major diameter'' of Inl e \<Rightarrow> Inl e | Inr major' \<Rightarrow>
        if minor' > major'
        then Inl (ValueError ''Minor diameter must be less than Major diameter'')
        else Inr threads)))"

definition get_pass_percentages :: "(string \<Rightarrow> int option) \<Rightarrow> string \<Rightarrow> error + rat list" where
  "get_pass_percentages parse_int passes' =
     (case parse_int passes' of
        None \<Rightarrow> Inl (ConversionError passes')
      | Some n \<Rightarrow>
          if \<not> (0 < n \<and> n < 5)
          then Inl (ValueError (passes' @ '' is not a valid option for number of passes''))
          else if n = 1 then Inr [1.0]
          else if n = 2 then Inr [0.65, 0.35]
          else if n = 3 then Inr [0.50, 0.30, 0.20]
          else Inr [0.40, 0.27, 0.20, 0.13])"

fun get_tool_info_loop :: "(string \<Rightarrow> rat option) \<Rightarrow> (string \<times> string) list \<Rightarrow> error + (string \<times> rat) list" where
  "get_tool_info_loop parse [] = Inr []"
| "get_tool_info_loop parse ((key, value) # items) =
     (case parse value of
        None \<Rightarrow> Inl (ConversionError value)
      | Some x \<Rightarrow>
          if x \<le> 0.0 then Inl (ValueError (key @ '' must be > 0.0''))
          else (case get_tool_info_loop parse items of
                  Inl e \<Rightarrow> Inl e
                | Inr tool \<Rightarrow> Inr ((key, x) # tool)))"

definition get_tool_info ::
  "(string \<Rightarrow> rat option) \<Rightarrow> string \<Rightarrow> string \<Rightarrow> string \<Rightarrow> string \<Rightarrow> error + (string \<times> rat) list" where
  "get_tool_info parse diameter' flutes' speed' feed' =
     get_tool_info_loop parse
       [(''Tool diameter'', diameter'), (''Number of flutes'', flutes'), (''Speed'', speed'),
        (''Feed'', feed')]"

definition get_toolpath_radii :: "(string \<times> rat) list \<Rightarrow> rat list \<Rightarrow> rat \<Rightarrow> error + rat list" where
  "get_toolpath_radii thread passes' tool_diameter =
     (case dict_get thread ''Major diameter'' of Inl e \<Rightarrow> Inl e | Inr major \<Rightarrow>
     (case dict_get thread ''Minor diameter'' of Inl e \<Rightarrow> Inl e | Inr minor \<Rightarrow>
        (let total_stock = py_round ((major - minor) / 2.0) 5;
             base_radius = py_round ((minor - tool_diameter) / 2.0) 5
         in Inr (toolpath_radii_loop base_radius total_stock passes' [] 0.0))))"

definition get_lead_radii :: "rat list \<Rightarrow> rat list" where
  "get_lead_radii radii' = map (\<lambda>lead. py_round (lead * sin_45) 4) radii'"

definition get_feed_adjustment :: "rat list \<Rightarrow> rat \<Rightarrow> rat list" where
  "get_feed_adjustment radii' tool_diameter =
     map (\<lambda>adjust. (adjust * 2.0) / (adjust * 2.0 + tool_diameter)) radii'"

text \<open>
  The \<open>write_\<close> functions append to the file; each is modelled by the text one call appends.
  The file is the list of these texts, one per call.
\<close>

definition write_begin :: "int \<Rightarrow> string" where
  "write_begin speed' = ''S'' @ str_int speed' @ '' M3'' @ ''\<newline>'' @ ''\<newline>''"

definition write_body ::
  "(rat \<Rightarrow> string) \<Rightarrow> rat \<Rightarrow> rat \<Rightarrow> rat \<Rightarrow> rat \<Rightarrow> rat \<Rightarrow> rat \<Rightarrow> rat \<Rightarrow> rat \<Rightarrow> rat \<Rightarrow> string" where
  "write_body str_float lead_arc feed0 feed_adjust fast_feed top_plane' start_z' radius lead_z'
       pitch' =
     (let start_x = py_round (lead_arc * sin_45) 4;
          start_y = - start_x;
          adjusted_feed = py_round (feed0 * feed_adjust) 2
      in ''G90 G0 Z'' @ str_float top_plane' @ ''\<newline>''
         @ ''G91 G01 Z'' @ str_float start_z' @ '' F'' @ str_float fast_feed @ ''\<newline>''
         @ ''G01 X'' @ str_float start_x @ '' Y'' @ str_float start_y @ '' F''
           @ str_float adjusted_feed @ ''\<newline>''
         @ ''G03 X'' @ str_float (py_round (radius - start_x) 4) @ '' Y'' @ str_float (- start_y)
           @ '' Z'' @ str_float lead_z' @ '' I0.0'' @ '' J'' @ str_float (- start_y) @ '' F''
           @ str_float adjusted_feed @ ''\<newline>''
         @ ''G03 X0.0 Y0.0 Z'' @ str_float (py_round pitch' 4) @ '' I''
           @ str_float (py_round (- radius) 4) @ '' J0.0'' @ '' F'' @ str_float adjusted_feed
           @ ''\<newline>''
         @ ''G03 X'' @ str_float (- start_x) @ '' Y'' @ str_float (- start_y) @ '' Z''
           @ str_float lead_z' @ '' I'' @ str_float (- start_x) @ '' J0.0'' @ '' F''
           @ str_float adjusted_feed @ ''\<newline>''
         @ ''G01 X'' @ str_float (- start_x) @ '' Y'' @ str_float start_y @ '' F''
           @ str_float fast_feed @ ''\<newline>''
         @ ''\<newline>'')"

definition write_end :: string where
  "write_end = ''M99\<newline>'' @ ''%\<newline>''"

text \<open>
  The loop of \<open>main\<close> over \<open>enumerate(toolpath_radii)\<close>. \<open>body\<close> is \<open>write_body\<close> with the
  arguments that do not change from pass to pass; \<open>n\<close> is \<open>len(toolpath_radii)\<close>.
\<close>

fun main_loop ::
  "(rat \<Rightarrow> rat \<Rightarrow> rat \<Rightarrow> string) \<Rightarrow> rat list \<Rightarrow> rat list \<Rightarrow> nat \<Rightarrow> int \<Rightarrow> nat \<Rightarrow> rat list
     \<Rightarrow> string list \<Rightarrow> error + string list" where
  "main_loop body lead_arcs' feed_adjust n finish_passes index [] file = Inr file"
| "main_loop body lead_arcs' feed_adjust n finish_passes index (radius # rest) file =
     (case list_get lead_arcs' index of Inl e \<Rightarrow> Inl e | Inr lead_arc \<Rightarrow>
     (case list_get feed_adjust index of Inl e \<Rightarrow> Inl e | Inr adjust \<Rightarrow>
        (let block = body lead_arc adjust radius;
             file' = file @ [block];
             file'' = (if int index = int n - 1
                       then append_times (nat (finish_passes - 1)) block file'
                       else file')
         in main_loop body lead_arcs' feed_adjust n finish_passes (index + 1) rest file'')))"

text \<open>
  \<open>main\<close>, from the answers to the prompts to the texts written to the g-code file. The
  five answers about the thread and the four about the tool come as tuples, in the order
  of the prompts. The settings file, written afterwards, is left out.
\<close>

type_synonym thread_answers = "string \<times> string \<times> string \<times> string \<times> string"

type_synonym tool_answers = "string \<times> string \<times> string \<times> string"

definition main ::
  "(string \<Rightarrow> rat option) \<Rightarrow> (string \<Rightarrow> int option) \<Rightarrow> (rat \<Rightarrow> string)
     \<Rightarrow> thread_answers \<Rightarrow> tool_answers \<Rightarrow> string \<Rightarrow> string \<Rightarrow> error + string list" where
  "main parse parse_int str_float thread_answers tool_answers number_of_passes finish_passes =
     (case thread_answers of (major, minor, depth', start, tpi') \<Rightarrow>
     (case tool_answers of (diameter', flutes', speed', feed') \<Rightarrow>
     (case get_thread_info parse major minor depth' start tpi' of Inl e \<Rightarrow> Inl e | Inr thread_info \<Rightarrow>
     (case get_tool_info parse diameter' flutes' speed' feed' of Inl e \<Rightarrow> Inl e | Inr tool_info \<Rightarrow>
     (case dict_get tool_info ''Tool diameter'' of Inl e \<Rightarrow> Inl e | Inr tool_diameter \<Rightarrow>
     (case dict_get thread_info ''Minor diameter'' of Inl e \<Rightarrow> Inl e | Inr minor_diameter' \<Rightarrow>
        if tool_diameter > minor_diameter'
        then Inl (ValueError ''Tool diameter must be less than Minor diameter.'')
        else
     (case get_pass_percentages parse_int number_of_passes of Inl e \<Rightarrow> Inl e | Inr pass_percentages \<Rightarrow>
     (case parse_int finish_passes of None \<Rightarrow> Inl (ConversionError finish_passes) | Some finish \<Rightarrow>
        if finish < 1
        then Inl (ValueError ''Finish passes must be greater than 0'')
        else
     (case get_toolpath_radii thread_info pass_percentages tool_diameter of Inl e \<Rightarrow> Inl e | Inr toolpath_radii \<Rightarrow>
     (case dict_get tool_info ''Speed'' of Inl e \<Rightarrow> Inl e | Inr tool_speed \<Rightarrow>
     (case dict_get tool_info ''Feed'' of Inl e \<Rightarrow> Inl e | Inr tool_feed \<Rightarrow>
     (case dict_get tool_info ''Number of flutes'' of Inl e \<Rightarrow> Inl e | Inr tool_flutes \<Rightarrow>
     (case dict_get thread_info ''Threads per inch'' of Inl e \<Rightarrow> Inl e | Inr threads_per_inch \<Rightarrow>
     (case dict_get thread_info ''Thread depth'' of Inl e \<Rightarrow> Inl e | Inr thread_depth \<Rightarrow>
     (case dict_get thread_info ''Starting plane'' of Inl e \<Rightarrow> Inl e | Inr top_plane' \<Rightarrow>
        (let lead_arcs' = get_lead_radii toolpath_radii;
             feed_adjust = get_feed_adjustment toolpath_radii tool_diameter;
             rpm' = round_half_even (tool_speed * 3.82 / tool_diameter);
             feed0 = of_int rpm' * tool_feed * tool_flutes;
             fast_feed = 15.0;
             pitch' = 1.0 / threads_per_inch;
             lead_z' = py_round (0.125 * pitch') 4;
             start_z' = - (thread_depth + lead_z')
         in case main_loop
                   (\<lambda>lead_arc adjust radius.
                      write_body str_float lead_arc feed0 adjust fast_feed top_plane' start_z'
                        radius lead_z' pitch')
                   lead_arcs' feed_adjust (length toolpath_radii) finish 0 toolpath_radii
                   [write_begin rpm']
            of Inl e \<Rightarrow> Inl e
             | Inr file \<Rightarrow> Inr (file @ [write_end])))))))))))))))))"

section \<open>Vocabulary of the properties\<close>

text \<open>The test of the fraction table: the fractions sum to 1.0 within \<open>1e-9\<close>.\<close>

definition sums_to_one :: "rat list \<Rightarrow> bool" where
  "sums_to_one fs = (\<bar>sum_list fs - 1.0\<bar> \<le> 1 / 10 ^ 9)"

text \<open>The locals \<open>total_stock\<close> and \<open>base_radius\<close> of \<open>calc_toolpath_radii\<close>.\<close>

definition total_stock_of :: "rat ScrewThread \<Rightarrow> rat" where
  "total_stock_of thread = py_round ((major_diameter thread - minor_diameter thread) / 2.0) 5"

definition base_radius_of :: "rat ScrewThread \<Rightarrow> rat \<Rightarrow> rat" where
  "base_radius_of thread tool_diameter = py_round ((minor_diameter thread - tool_diameter) / 2.0) 5"

text \<open>
  Sample inputs: the thread of the end-to-end example (depth 0.05, starting plane 0.25,
  20 threads per inch) with the two diameters left open, as an object and as a dictionary.
\<close>

definition example_thread :: "rat \<Rightarrow> rat \<Rightarrow> rat ScrewThread" where
  "example_thread major minor =
     \<lparr>major_diameter = major, minor_diameter = minor, depth = 0.05, start_plane = 0.25,
      tpi = 20.0, pitch = 0.05\<rparr>"

definition example_thread_info :: "rat \<Rightarrow> rat \<Rightarrow> (string \<times> rat) list" where
  "example_thread_info major minor =
     [(''Major diameter'', major), (''Minor diameter'', minor), (''Thread depth'', 0.05),
      (''Starting plane'', 0.25), (''Threads per inch'', 20.0)]"

text \<open>
  The tool of the end-to-end example (4 flutes, 100 SFM, 0.001 per tooth) with its diameter
  and rpm left open, before and after validation; the thread before validation. These
  objects hold floats, so the parser is never asked: \<open>no_parse\<close> converts nothing.
\<close>

definition example_tool :: "rat \<Rightarrow> rat \<Rightarrow> pyval CuttingTool" where
  "example_tool diameter' rpm' =
     \<lparr>diameter = PyFloat diameter', flutes = PyFloat 4.0, speed = PyFloat 100.0,
      feed = PyFloat 0.001, rpm = PyFloat rpm'\<rparr>"

definition example_valid_tool :: "rat \<Rightarrow> rat \<Rightarrow> rat CuttingTool" where
  "example_valid_tool diameter' rpm' =
     \<lparr>diameter = diameter', flutes = 4.0, speed = 100.0, feed = 0.001, rpm = rpm'\<rparr>"

definition example_raw_thread :: "rat \<Rightarrow> rat \<Rightarrow> pyval ScrewThread" where
  "example_raw_thread major minor =
     \<lparr>major_diameter = PyFloat major, minor_diameter = PyFloat minor, depth = PyFloat 0.05,
      start_plane = PyFloat 0.25, tpi = PyFloat 20.0, pitch = PyFloat 0.05\<rparr>"

definition no_parse :: "string \<Rightarrow> rat option" where
  "no_parse s = None"

text \<open>
  For tmill_dict.py, whose inputs are strings: \<open>float\<close> and \<open>int\<close> on the strings the
  examples use, and a printer of floats that hides the digits.
\<close>

definition example_parse :: "string \<Rightarrow> rat option" where
  "example_parse = map_of [(''0.5'', 0.5), (''0.438'', 0.438), (''0.25'', 0.25), (''0.05'', 0.05),
     (''20'', 20.0), (''4'', 4.0), (''100'', 100.0), (''0.001'', 0.001)]"

definition example_parse_int :: "string \<Rightarrow> int option" where
  "example_parse_int = map_of [(''1'', 1), (''2'', 2), (''3'', 3), (''4'', 4)]"

definition example_str :: "rat \<Rightarrow> string" where
  "example_str x = ''#''"

definition example_tool_info :: "(string \<times> rat) list" where
  "example_tool_info =
     [(''Tool diameter'', 0.25), (''Number of flutes'', 4.0), (''Speed'', 100.0),
      (''Feed'', 0.001)]"

text \<open>The plan \<open>BodyDetails\<close> builds for the end-to-end example in two passes.\<close>

definition example_plan :: BodyDetails where
  "example_plan =
     \<lparr>passes = [0.65, 0.35], radii = [0.1142, 0.125], lead_arcs = [0.0808, 0.0884],
      feed_rates = [109061 / 37375, 3.056], top_plane = 0.25, lead_z = 0.0062,
      start_z = - 0.0562\<rparr>"

section \<open>Rounding\<close>

lemma round_half_even_error: "\<bar>of_int (round_half_even x) - x\<bar> \<le> 1 / 2"
proof -
  have "of_int \<lfloor>x\<rfloor> \<le> x" "x < of_int \<lfloor>x\<rfloor> + 1" by linarith+
  then show ?thesis
    by (auto simp: round_half_even_def Let_def abs_le_iff)
qed

lemma round_half_even_of_int [simp]: "round_half_even (of_int m) = m"
  by (simp add: round_half_even_def)

lemma round_half_even_mono: "x \<le> y \<Longrightarrow> round_half_even x \<le> round_half_even y"
proof -
  assume xy: "x \<le> y"
  have fl: "\<lfloor>x\<rfloor> \<le> \<lfloor>y\<rfloor>" using xy by (rule floor_mono)
  have bx: "of_int \<lfloor>x\<rfloor> \<le> x" "x < of_int \<lfloor>x\<rfloor> + 1" by linarith+
  have by': "of_int \<lfloor>y\<rfloor> \<le> y" "y < of_int \<lfloor>y\<rfloor> + 1" by linarith+
  show ?thesis
  proof (cases "\<lfloor>x\<rfloor> = \<lfloor>y\<rfloor>")
    case True
    then show ?thesis using xy
      by (auto simp: round_half_even_def Let_def)
  next
    case False
    then have lt: "\<lfloor>x\<rfloor> + 1 \<le> \<lfloor>y\<rfloor>" using fl by linarith
    have a: "round_half_even x \<le> \<lfloor>x\<rfloor> + 1" by (auto simp: round_half_even_def Let_def)
    have b: "\<lfloor>y\<rfloor> \<le> round_half_even y" by (auto simp: round_half_even_def Let_def)
    show ?thesis using a b lt by linarith
  qed
qed

lemma round_half_even_above: "of_int m + 1 / 2 < x \<Longrightarrow> m + 1 \<le> round_half_even x"
proof -
  assume h: "of_int m + 1 / 2 < x"
  have "m \<le> \<lfloor>x\<rfloor>" using h by linarith
  then consider "m = \<lfloor>x\<rfloor>" | "m + 1 \<le> \<lfloor>x\<rfloor>" by linarith
  then show ?thesis
  proof cases
    case 1
    then have "1 / 2 < x - of_int \<lfloor>x\<rfloor>" using h by simp
    then show ?thesis using 1 by (auto simp: round_half_even_def Let_def)
  next
    case 2
    have "\<lfloor>x\<rfloor> \<le> round_half_even x" by (auto simp: round_half_even_def Let_def)
    then show ?thesis using 2 by linarith
  qed
qed

lemma abs_scaled_diff:
  fixes a x p :: rat
  assumes "0 < p"
  shows "\<bar>a - x * p\<bar> / p = \<bar>a / p - x\<bar>"
proof -
  have "\<bar>a - x * p\<bar> / p = \<bar>(a - x * p) / p\<bar>"
    using assms by (simp add: abs_divide)
  also have "(a - x * p) / p = a / p - x"
    using assms by (simp add: diff_divide_distrib)
  finally show ?thesis .
qed

lemma py_round_error: "\<bar>py_round x n - x\<bar> \<le> 1 / (2 * 10 ^ n)"
proof -
  have p: "(0::rat) < 10 ^ n" by simp
  have "\<bar>of_int (round_half_even (x * 10 ^ n)) - x * 10 ^ n\<bar> \<le> 1 / 2"
    by (rule round_half_even_error)
  then have "\<bar>of_int (round_half_even (x * 10 ^ n)) - x * 10 ^ n\<bar> / 10 ^ n \<le> (1 / 2) / 10 ^ n"
    by (rule divide_right_mono) simp
  then have "\<bar>of_int (round_half_even (x * 10 ^ n)) / 10 ^ n - x\<bar> \<le> (1 / 2) / 10 ^ n"
    by (simp only: abs_scaled_diff [OF p])
  then show ?thesis by (simp add: py_round_def)
qed

lemma py_round_mono: "x \<le> y \<Longrightarrow> py_round x n \<le> py_round y n"
  by (simp add: py_round_def divide_right_mono round_half_even_mono mult_right_mono)

lemma py_round_grid: "py_round (of_int m / 10 ^ n) n = of_int m / 10 ^ n"
  by (simp add: py_round_def)

lemma py_round_idem: "py_round (py_round x n) n = py_round x n"
  by (simp add: py_round_def)

lemma py_round_nonneg: "0 \<le> x \<Longrightarrow> 0 \<le> py_round x n"
  using py_round_mono [of 0 x n] round_half_even_of_int [of 0] by (simp add: py_round_def)

lemma py_round_step:
  assumes "1 / (2 * 10 ^ n) < d"
  shows "py_round x n + 1 / 10 ^ n \<le> py_round (py_round x n + d) n"
proof -
  let ?m = "round_half_even (x * 10 ^ n)"
  have p: "(0::rat) < 10 ^ n" by simp
  have "d * 10 ^ n > 1 / 2" using assms p by (simp add: field_simps)
  then have "of_int ?m + 1 / 2 < (py_round x n + d) * 10 ^ n"
    by (simp add: py_round_def distrib_right)
  then have "?m + 1 \<le> round_half_even ((py_round x n + d) * 10 ^ n)"
    by (rule round_half_even_above)
  then have "(of_int (?m + 1) :: rat) \<le> of_int (round_half_even ((py_round x n + d) * 10 ^ n))"
    by (simp only: of_int_le_iff)
  then have "(of_int (?m + 1) :: rat) / 10 ^ n \<le> py_round (py_round x n + d) n"
    unfolding py_round_def [of "_ + d"] using p by (simp add: divide_right_mono)
  then show ?thesis by (simp add: py_round_def add_divide_distrib)
qed

section \<open>The pass table and the radius recursion\<close>

lemma get_pass_percentages_eq:
  "parse_int s = Some n \<Longrightarrow> 0 < n \<Longrightarrow> n < 5 \<Longrightarrow>
     get_pass_percentages parse_int s = calc_pass_percentages n"
  by (simp add: get_pass_percentages_def calc_pass_percentages_def)

lemma calc_pass_percentages_cases:
  assumes "calc_pass_percentages n = Inr fs"
  shows "(n = 1 \<and> fs = [1.0]) \<or> (n = 2 \<and> fs = [0.65, 0.35])
       \<or> (n = 3 \<and> fs = [0.50, 0.30, 0.20]) \<or> (n = 4 \<and> fs = [0.40, 0.27, 0.20, 0.13])"
proof -
  have r: "0 < n" "n < 5"
    using assms by (auto simp: calc_pass_percentages_def split: if_splits)
  then consider "n = 1" | "n = 2" | "n = 3" | "n = 4" by linarith
  then show ?thesis
    using assms by cases (simp_all add: calc_pass_percentages_def)
qed

lemma calc_pass_percentages_sum:
  "calc_pass_percentages n = Inr fs \<Longrightarrow> sum_list fs = 1 \<and> int (length fs) = n \<and> fs \<noteq> []"
  using calc_pass_percentages_cases [of n fs] by auto

lemma calc_pass_percentages_pos:
  "calc_pass_percentages n = Inr fs \<Longrightarrow> f \<in> set fs \<Longrightarrow> 13 / 100 \<le> f"
  using calc_pass_percentages_cases [of n fs] by auto


lemma toolpath_radii_loop_acc:
  "toolpath_radii_loop b ts fs acc prev = acc @ toolpath_radii_loop b ts fs [] prev"
proof (induction fs arbitrary: acc prev)
  case Nil
  show ?case by simp
next
  case (Cons f fs)
  show ?case
    using Cons.IH [of "acc @ [py_round (b + ts * f + prev) 4]"]
      Cons.IH [of "[py_round (b + ts * f + prev) 4]"]
    by (simp add: Let_def)
qed

lemma toolpath_radii_loop_Cons:
  "toolpath_radii_loop b ts (f # fs) [] prev =
     py_round (b + ts * f + prev) 4
       # toolpath_radii_loop b ts fs [] (py_round (b + ts * f + prev) 4 - b)"
  using toolpath_radii_loop_acc [of b ts fs "[py_round (b + ts * f + prev) 4]"]
  by (simp add: Let_def)

lemma toolpath_radii_loop_length:
  "length (toolpath_radii_loop b ts fs [] prev) = length fs"
  by (induction fs arbitrary: prev)
    (simp_all add: toolpath_radii_loop_Cons del: toolpath_radii_loop.simps(2))

lemma toolpath_radii_loop_last:
  "fs \<noteq> [] \<Longrightarrow>
   \<bar>last (toolpath_radii_loop b ts fs [] prev) - (b + prev + ts * sum_list fs)\<bar>
     \<le> of_nat (length fs) / 20000"
proof (induction fs arbitrary: prev)
  case Nil
  then show ?case by simp
next
  case (Cons f fs)
  let ?r = "py_round (b + ts * f + prev) 4"
  have r: "\<bar>?r - (b + ts * f + prev)\<bar> \<le> 1 / 20000"
    using py_round_error [of "b + ts * f + prev" 4] by simp
  show ?case
  proof (cases "fs = []")
    case True
    then show ?thesis using r by (simp add: Let_def algebra_simps)
  next
    case False
    have ne: "toolpath_radii_loop b ts fs [] (?r - b) \<noteq> []"
      using False toolpath_radii_loop_length [of b ts fs "?r - b"] by auto
    have e: "ts * (f + sum_list fs) = ts * f + ts * sum_list fs"
      by (simp add: distrib_left)
    have "\<bar>last (toolpath_radii_loop b ts fs [] (?r - b)) - (b + (?r - b) + ts * sum_list fs)\<bar>
            \<le> of_nat (length fs) / 20000"
      using Cons.IH [OF False] .
    then have "\<bar>last (toolpath_radii_loop b ts fs [] (?r - b)) - (b + prev + ts * (f + sum_list fs))\<bar>
            \<le> of_nat (length fs) / 20000 + 1 / 20000"
      using r unfolding abs_le_iff e by linarith
    then show ?thesis
      using ne by (simp add: toolpath_radii_loop_Cons add_divide_distrib del: toolpath_radii_loop.simps)
  qed
qed

lemma toolpath_radii_loop_sorted:
  assumes "0 \<le> ts" and "\<forall>f\<in>set fs. 0 \<le> f" and "py_round (b + prev) 4 = b + prev"
  shows "sorted_wrt (\<le>) ((b + prev) # toolpath_radii_loop b ts fs [] prev)"
  using assms
proof (induction fs arbitrary: prev)
  case Nil
  then show ?case by simp
next
  case (Cons f fs)
  let ?r = "py_round (b + ts * f + prev) 4"
  have "0 \<le> ts * f" using Cons.prems by simp
  then have "py_round (b + prev) 4 \<le> ?r" by (intro py_round_mono) simp
  then have le: "b + prev \<le> ?r" using Cons.prems by simp
  have "py_round (b + (?r - b)) 4 = b + (?r - b)" by (simp add: py_round_idem)
  then have "sorted_wrt (\<le>) ((b + (?r - b)) # toolpath_radii_loop b ts fs [] (?r - b))"
    using Cons.IH [of "?r - b"] Cons.prems by simp
  then have s: "sorted_wrt (\<le>) (?r # toolpath_radii_loop b ts fs [] (?r - b))" by simp
  then have "\<forall>y\<in>set (toolpath_radii_loop b ts fs [] (?r - b)). ?r \<le> y" by simp
  then have "\<forall>y\<in>set (toolpath_radii_loop b ts fs [] (?r - b)). b + prev \<le> y"
    using le by auto
  then show ?case using s le
    by (simp add: toolpath_radii_loop_Cons del: toolpath_radii_loop.simps)
qed

lemma toolpath_radii_loop_strict:
  assumes "\<forall>f\<in>set fs. 1 / 20000 < ts * f" and "py_round (b + prev) 4 = b + prev"
  shows "sorted_wrt (<) ((b + prev) # toolpath_radii_loop b ts fs [] prev)"
  using assms
proof (induction fs arbitrary: prev)
  case Nil
  then show ?case by simp
next
  case (Cons f fs)
  let ?r = "py_round (b + ts * f + prev) 4"
  have "1 / (2 * 10 ^ 4) < ts * f" using Cons.prems by simp
  then have "py_round (b + prev) 4 + 1 / 10 ^ 4 \<le> py_round (py_round (b + prev) 4 + ts * f) 4"
    by (rule py_round_step)
  then have lt: "b + prev < ?r" using Cons.prems by (simp add: algebra_simps)
  have "py_round (b + (?r - b)) 4 = b + (?r - b)" by (simp add: py_round_idem)
  then have "sorted_wrt (<) ((b + (?r - b)) # toolpath_radii_loop b ts fs [] (?r - b))"
    using Cons.IH [of "?r - b"] Cons.prems by simp
  then have s: "sorted_wrt (<) (?r # toolpath_radii_loop b ts fs [] (?r - b))" by simp
  then have "\<forall>y\<in>set (toolpath_radii_loop b ts fs [] (?r - b)). ?r < y" by simp
  then have "\<forall>y\<in>set (toolpath_radii_loop b ts fs [] (?r - b)). b + prev < y"
    using lt by auto
  then show ?case using s lt
    by (simp add: toolpath_radii_loop_Cons del: toolpath_radii_loop.simps)
qed

lemma get_toolpath_radii_eq:
  assumes "dict_get td ''Major diameter'' = Inr (major_diameter thread)"
    and "dict_get td ''Minor diameter'' = Inr (minor_diameter thread)"
  shows "get_toolpath_radii td fs d = Inr (calc_toolpath_radii thread fs d)"
  using assms by (simp add: get_toolpath_radii_def calc_toolpath_radii_def)

lemma calc_toolpath_radii_length:
  "length (calc_toolpath_radii thread fs d) = length fs"
  by (simp add: calc_toolpath_radii_def Let_def toolpath_radii_loop_length)

lemma calc_toolpath_radii_last:
  assumes "fs \<noteq> []"
  shows "\<bar>last (calc_toolpath_radii thread fs d)
           - (py_round ((minor_diameter thread - d) / 2.0) 5
              + py_round ((major_diameter thread - minor_diameter thread) / 2.0) 5 * sum_list fs)\<bar>
         \<le> of_nat (length fs) / 20000"
  using toolpath_radii_loop_last [OF assms,
      of "py_round ((minor_diameter thread - d) / 2.0) 5"
         "py_round ((major_diameter thread - minor_diameter thread) / 2.0) 5" 0]
  by (simp add: calc_toolpath_radii_def Let_def)

lemma calc_toolpath_radii_single:
  "calc_toolpath_radii thread [1] d
     = [py_round (py_round ((minor_diameter thread - d) / 2.0) 5
                  + py_round ((major_diameter thread - minor_diameter thread) / 2.0) 5) 4]"
  by (simp add: calc_toolpath_radii_def Let_def)

lemma total_stock_nonneg:
  "minor_diameter thread \<le> major_diameter thread \<Longrightarrow>
     0 \<le> py_round ((major_diameter thread - minor_diameter thread) / 2.0) 5"
  by (rule py_round_nonneg) simp

lemma calc_toolpath_radii_sorted:
  assumes "minor_diameter thread \<le> major_diameter thread" and "\<forall>f\<in>set fs. 0 \<le> f"
  shows "sorted_wrt (\<le>) (calc_toolpath_radii thread fs d)"
proof (cases fs)
  case Nil
  then show ?thesis by (simp add: calc_toolpath_radii_def Let_def)
next
  case (Cons f fs')
  let ?b = "py_round ((minor_diameter thread - d) / 2.0) 5"
  let ?ts = "py_round ((major_diameter thread - minor_diameter thread) / 2.0) 5"
  let ?r = "py_round (?b + ?ts * f + 0) 4"
  have ts: "0 \<le> ?ts" using assms(1) by (rule total_stock_nonneg)
  have "py_round (?b + (?r - ?b)) 4 = ?b + (?r - ?b)" by (simp add: py_round_idem)
  moreover have "\<forall>f\<in>set fs'. 0 \<le> f" using assms(2) Cons by simp
  ultimately have "sorted_wrt (\<le>) ((?b + (?r - ?b)) # toolpath_radii_loop ?b ?ts fs' [] (?r - ?b))"
    using ts by (intro toolpath_radii_loop_sorted)
  then show ?thesis
    using Cons
    by (simp add: calc_toolpath_radii_def Let_def toolpath_radii_loop_Cons
          del: toolpath_radii_loop.simps)
qed

lemma calc_toolpath_radii_strict:
  assumes "\<forall>f\<in>set fs.
      1 / 20000 < py_round ((major_diameter thread - minor_diameter thread) / 2.0) 5 * f"
  shows "sorted_wrt (<) (calc_toolpath_radii thread fs d)"
proof (cases fs)
  case Nil
  then show ?thesis by (simp add: calc_toolpath_radii_def Let_def)
next
  case (Cons f fs')
  let ?b = "py_round ((minor_diameter thread - d) / 2.0) 5"
  let ?ts = "py_round ((major_diameter thread - minor_diameter thread) / 2.0) 5"
  let ?r = "py_round (?b + ?ts * f + 0) 4"
  have "py_round (?b + (?r - ?b)) 4 = ?b + (?r - ?b)" by (simp add: py_round_idem)
  moreover have "\<forall>f\<in>set fs'. 1 / 20000 < ?ts * f" using assms Cons by simp
  ultimately have "sorted_wrt (<) ((?b + (?r - ?b)) # toolpath_radii_loop ?b ?ts fs' [] (?r - ?b))"
    by (intro toolpath_radii_loop_strict)
  then show ?thesis
    using Cons
    by (simp add: calc_toolpath_radii_def Let_def toolpath_radii_loop_Cons
          del: toolpath_radii_loop.simps)
qed

section \<open>Lead arcs, feed rates and the plan\<close>

lemma lead_arcs_loop_map:
  "lead_arcs_loop rs arcs = arcs @ map (\<lambda>r. py_round (r * sin_45) 4) rs"
  by (induction rs arbitrary: arcs) simp_all

lemma calc_lead_arcs_map: "calc_lead_arcs rs = get_lead_radii rs"
  by (simp add: calc_lead_arcs_def get_lead_radii_def lead_arcs_loop_map)

lemma adjusted_feed_loop_map:
  "adjusted_feed_loop tool rs acc
     = acc @ map (\<lambda>r. feed tool * (r * 2.0) / (r * 2.0 + diameter tool)) rs"
  by (induction rs arbitrary: acc) simp_all

lemma feed_rates_loop_map:
  "feed_rates_loop tool fs acc = acc @ map (\<lambda>f. f * flutes tool * rpm tool) fs"
  by (induction fs arbitrary: acc) simp_all

lemma calc_adjusted_feed_nth:
  "i < length rs \<Longrightarrow>
     calc_adjusted_feed rs tool ! i = feed tool * get_feed_adjustment rs (diameter tool) ! i"
  by (simp add: calc_adjusted_feed_def adjusted_feed_loop_map get_feed_adjustment_def)

lemma calc_feed_rate_nth:
  "i < length rs \<Longrightarrow>
     calc_feed_rate rs tool ! i = calc_adjusted_feed rs tool ! i * flutes tool * rpm tool"
  by (simp add: calc_feed_rate_def calc_adjusted_feed_def adjusted_feed_loop_map
        feed_rates_loop_map)

lemma calc_feed_rate_length: "length (calc_feed_rate rs tool) = length rs"
  by (simp add: calc_feed_rate_def calc_adjusted_feed_def adjusted_feed_loop_map
        feed_rates_loop_map)

lemma validate_item_positive:
  "validate_item parse True key value = Inr x \<Longrightarrow> 0 < x"
  by (auto simp: validate_item_def split: sum.splits if_splits)

lemma CuttingTool_validate_positive:
  assumes "CuttingTool_validate parse tool0 = Inr tool"
  shows "0 < diameter tool \<and> 0 < flutes tool \<and> 0 < speed tool \<and> 0 < feed tool \<and> 0 < rpm tool"
  using assms unfolding CuttingTool_validate_def
  by (auto split: sum.splits dest: validate_item_positive)

lemma feed_factor_bounds:
  fixes r d :: rat
  assumes "0 < r" and "0 < d"
  shows "0 < (r * 2) / (r * 2 + d)" and "(r * 2) / (r * 2 + d) < 1"
  using assms by (simp_all add: field_simps)

lemma BodyDetails_init_Inr:
  assumes "BodyDetails_init parse thread0 tool0 n = Inr (toolpath, thread, tool)"
  shows "ScrewThread_validate parse thread0 = Inr thread"
    and "CuttingTool_validate parse tool0 = Inr tool"
    and "diameter tool \<le> minor_diameter thread"
    and "calc_pass_percentages n = Inr (passes toolpath)"
    and "radii toolpath = calc_toolpath_radii thread (passes toolpath) (diameter tool)"
    and "lead_arcs toolpath = calc_lead_arcs (radii toolpath)"
    and "feed_rates toolpath = calc_feed_rate (radii toolpath) tool"
  using assms unfolding BodyDetails_init_def
  by (auto simp: Let_def split: sum.splits if_splits)

lemma BodyDetails_init_lengths:
  assumes "BodyDetails_init parse thread0 tool0 n = Inr (toolpath, thread, tool)"
  shows "int (length (radii toolpath)) = n"
    and "length (lead_arcs toolpath) = length (radii toolpath)"
    and "length (feed_rates toolpath) = length (radii toolpath)"
    and "radii toolpath \<noteq> []"
proof -
  note b = BodyDetails_init_Inr [OF assms]
  have p: "int (length (passes toolpath)) = n" "passes toolpath \<noteq> []"
    using calc_pass_percentages_sum [OF b(4)] by simp_all
  show "int (length (radii toolpath)) = n"
    using p(1) by (simp add: b(5) calc_toolpath_radii_length)
  show "length (lead_arcs toolpath) = length (radii toolpath)"
    by (simp add: b(6) calc_lead_arcs_map get_lead_radii_def)
  show "length (feed_rates toolpath) = length (radii toolpath)"
    by (simp add: b(7) calc_feed_rate_length)
  have "length (radii toolpath) = length (passes toolpath)"
    by (simp add: b(5) calc_toolpath_radii_length)
  then show "radii toolpath \<noteq> []" using p(2) by auto
qed

section \<open>The blocks of the program\<close>

lemma append_times_replicate: "append_times n x out = out @ replicate n x"
proof (induction n arbitrary: out)
  case 0
  show ?case by simp
next
  case (Suc n)
  show ?case by (simp add: Suc.IH replicate_app_Cons_same)
qed

lemma post_body_loop_map:
  "post_body_loop block items (out, g)
     = (out @ map block items, if items = [] then g else block (last items))"
  by (induction items arbitrary: out g) (simp_all add: Let_def)

lemma drop_map_last:
  assumes "items \<noteq> []"
  shows "drop (length items - 1) (map block items) = [block (last items)]"
proof -
  have "items = butlast items @ [last items]" using assms by simp
  then have "drop (length (butlast items)) items = [last items]"
    by (metis append_eq_conv_conj)
  then have "drop (length items - 1) items = [last items]" by simp
  then show ?thesis by (simp add: drop_map)
qed

lemma finish_blocks:
  assumes "items \<noteq> []"
  shows "length (map block items @ replicate k (block (last items))) = length items + k"
    and "drop (length items - 1) (map block items @ replicate k (block (last items)))
           = replicate (Suc k) (block (last items))"
    and "(map block items @ replicate k (block (last items))) ! (length items - 1)
           = block (last items)"
proof -
  show "length (map block items @ replicate k (block (last items))) = length items + k"
    by simp
  show "drop (length items - 1) (map block items @ replicate k (block (last items)))
           = replicate (Suc k) (block (last items))"
    using assms drop_map_last [OF assms, of block] by simp
  show "(map block items @ replicate k (block (last items))) ! (length items - 1)
           = block (last items)"
    using assms by (simp add: nth_append last_conv_nth)
qed

lemma post_body_parts_blocks:
  assumes "radii toolpath \<noteq> []"
    and "length (lead_arcs toolpath) = length (radii toolpath)"
    and "length (feed_rates toolpath) = length (radii toolpath)"
  defines "items \<equiv> zip (radii toolpath) (zip (lead_arcs toolpath) (feed_rates toolpath))"
  shows "length items = length (radii toolpath)"
    and "items \<noteq> []"
    and "post_body_parts str_float toolpath thread finish_passes rapid_feed
           = map (post_body_g_code str_float toolpath (str_float (top_plane toolpath))
                    (py_round rapid_feed 4) (str_float (py_round (pitch thread) 4))) items
             @ replicate (nat (finish_passes - 1))
                 (post_body_g_code str_float toolpath (str_float (top_plane toolpath))
                    (py_round rapid_feed 4) (str_float (py_round (pitch thread) 4))
                    (last items))"
proof -
  show l: "length items = length (radii toolpath)"
    using assms(2,3) by (simp add: items_def)
  then show ne: "items \<noteq> []" using assms(1) by (metis length_0_conv)
  then show "post_body_parts str_float toolpath thread finish_passes rapid_feed
           = map (post_body_g_code str_float toolpath (str_float (top_plane toolpath))
                    (py_round rapid_feed 4) (str_float (py_round (pitch thread) 4))) items
             @ replicate (nat (finish_passes - 1))
                 (post_body_g_code str_float toolpath (str_float (top_plane toolpath))
                    (py_round rapid_feed 4) (str_float (py_round (pitch thread) 4))
                    (last items))"
    unfolding items_def
    by (simp add: post_body_parts_def Let_def post_body_loop_map append_times_replicate)
qed

lemma main_loop_blocks:
  assumes "length la = n" and "length fa = n" and "index + length rest = n"
  shows "\<exists>blocks. main_loop body la fa n finish index rest written = Inr (written @ blocks)
           \<and> length blocks = length rest + (if rest = [] then 0 else nat (finish - 1))
           \<and> (rest \<noteq> [] \<longrightarrow> drop (length rest - 1) blocks
                 = replicate (Suc (nat (finish - 1))) (blocks ! (length rest - 1)))"
  using assms(3)
proof (induction rest arbitrary: index written)
  case Nil
  show ?case by simp
next
  case (Cons radius rest)
  let ?block = "body (la ! index) (fa ! index) radius"
  have i: "index < n" using Cons.prems by simp
  have g: "list_get la index = Inr (la ! index)" "list_get fa index = Inr (fa ! index)"
    using i assms(1,2) by (simp_all add: list_get_def)
  show ?case
  proof (cases "rest = []")
    case True
    then have "int index = int n - 1" using Cons.prems by simp
    then have "main_loop body la fa n finish index (radius # rest) written
        = Inr (written @ replicate (Suc (nat (finish - 1))) ?block)"
      using True g by (simp add: Let_def append_times_replicate)
    then show ?thesis using True by auto
  next
    case False
    then have "int index \<noteq> int n - 1" using Cons.prems by (cases rest) auto
    then have m: "main_loop body la fa n finish index (radius # rest) written
        = main_loop body la fa n finish (index + 1) rest (written @ [?block])"
      using g by (simp add: Let_def)
    have "index + 1 + length rest = n" using Cons.prems by simp
    from Cons.IH [OF this, of "written @ [?block]"] False
    obtain blocks where b:
      "main_loop body la fa n finish (index + 1) rest (written @ [?block])
         = Inr ((written @ [?block]) @ blocks)"
      "length blocks = length rest + nat (finish - 1)"
      "drop (length rest - 1) blocks
         = replicate (Suc (nat (finish - 1))) (blocks ! (length rest - 1))"
      by auto
    have pos: "0 < length rest" using False by simp
    have "main_loop body la fa n finish index (radius # rest) written
        = Inr (written @ (?block # blocks))"
      using m b(1) by simp
    moreover have "length (?block # blocks)
        = length (radius # rest) + (if radius # rest = [] then 0 else nat (finish - 1))"
      using b(2) by simp
    moreover have "drop (length (radius # rest) - 1) (?block # blocks)
        = replicate (Suc (nat (finish - 1))) ((?block # blocks) ! (length (radius # rest) - 1))"
      using b(3) pos by (cases "length rest") simp_all
    ultimately show ?thesis by blast
  qed
qed

lemma post_body_blocks:
  assumes "BodyDetails_init parse thread0 tool0 n = Inr (toolpath, thread, tool)"
    and "1 \<le> N"
  shows "length (post_body_parts str_float toolpath thread N rapid_feed)
           = length (radii toolpath) + nat (N - 1)
       \<and> int (length (radii toolpath)) = n
       \<and> drop (length (radii toolpath) - 1) (post_body_parts str_float toolpath thread N rapid_feed)
           = replicate (nat N)
               (post_body_parts str_float toolpath thread N rapid_feed ! (length (radii toolpath) - 1))
       \<and> main_g_code_file str_float toolpath thread tool N
           = post_begin (rpm tool) @ concat (post_body_parts str_float toolpath thread N 20.0)
             @ post_end"
proof -
  define items where "items = zip (radii toolpath) (zip (lead_arcs toolpath) (feed_rates toolpath))"
  define block where "block = (\<lambda>rapid. post_body_g_code str_float toolpath
      (str_float (top_plane toolpath)) (py_round rapid 4) (str_float (py_round (pitch thread) 4)))"
  note l = BodyDetails_init_lengths [OF assms(1)]
  note p = post_body_parts_blocks [OF l(4) l(2) l(3)]
  have li: "length items = length (radii toolpath)" and ne: "items \<noteq> []"
    using p(1,2) by (simp_all add: items_def)
  have q: "post_body_parts str_float toolpath thread N rapid
             = map (block rapid) items @ replicate (nat (N - 1)) (block rapid (last items))"
    for rapid
    unfolding items_def block_def by (rule p(3))
  note f = finish_blocks [OF ne, of "block rapid_feed" "nat (N - 1)"]
  have N: "Suc (nat (N - 1)) = nat N" using assms(2) by simp
  have a: "length (post_body_parts str_float toolpath thread N rapid_feed)
           = length (radii toolpath) + nat (N - 1)"
    unfolding q using f(1) li by simp
  have b: "drop (length (radii toolpath) - 1) (post_body_parts str_float toolpath thread N rapid_feed)
           = replicate (nat N)
               (post_body_parts str_float toolpath thread N rapid_feed ! (length (radii toolpath) - 1))"
    unfolding q using f(2,3) li N by (simp del: replicate_Suc)
  have c: "main_g_code_file str_float toolpath thread tool N
           = post_begin (rpm tool) @ concat (post_body_parts str_float toolpath thread N 20.0)
             @ post_end"
    by (simp add: main_g_code_file_def post_body_def)
  show ?thesis using a b c l(1) by simp
qed

lemma get_thread_info_Inr:
  assumes "get_thread_info parse major minor dp start tp = Inr thread_info"
  shows "\<exists>M m d s t. thread_info = [(''Major diameter'', M), (''Minor diameter'', m),
            (''Thread depth'', d), (''Starting plane'', s), (''Threads per inch'', t)]
          \<and> 0 < M \<and> 0 < m \<and> 0 < d \<and> 0 < t \<and> m \<le> M"
  using assms unfolding get_thread_info_def
  by (auto simp: dict_get_def split: option.splits if_splits sum.splits)

lemma get_tool_info_Inr:
  assumes "get_tool_info parse td fl sp fd = Inr tool_info"
  shows "\<exists>d f s e. tool_info = [(''Tool diameter'', d), (''Number of flutes'', f),
            (''Speed'', s), (''Feed'', e)]
          \<and> 0 < d \<and> 0 < f \<and> 0 < s \<and> 0 < e"
  using assms unfolding get_tool_info_def
  by (auto split: option.splits if_splits sum.splits)

lemma get_toolpath_radii_length:
  "get_toolpath_radii thread_info fs d = Inr rs \<Longrightarrow> length rs = length fs"
  by (auto simp: get_toolpath_radii_def Let_def toolpath_radii_loop_length split: sum.splits)

lemma get_pass_percentages_nonempty:
  assumes "get_pass_percentages parse_int s = Inr fs"
  shows "fs \<noteq> []"
  using assms by (auto simp: get_pass_percentages_def split: option.splits if_splits)

lemma main_blocks:
  assumes th: "get_thread_info parse major minor dp start tp = Inr thread_info"
    and tl: "get_tool_info parse td fl sp fd = Inr tool_info"
    and d: "dict_get tool_info ''Tool diameter'' = Inr d"
    and m: "dict_get thread_info ''Minor diameter'' = Inr m"
    and fit: "d \<le> m"
    and ps: "get_pass_percentages parse_int number_of_passes = Inr fs"
    and fin: "parse_int finish_passes = Some N"
    and N: "1 \<le> N"
  shows "\<exists>rpm' blocks.
           main parse parse_int str_float (major, minor, dp, start, tp) (td, fl, sp, fd)
               number_of_passes finish_passes
             = Inr (write_begin rpm' # blocks @ [write_end])
           \<and> length blocks = length fs + nat (N - 1)
           \<and> drop (length fs - 1) blocks = replicate (nat N) (blocks ! (length fs - 1))"
proof -
  obtain M m' dp' s' t' where thi: "thread_info = [(''Major diameter'', M), (''Minor diameter'', m'),
            (''Thread depth'', dp'), (''Starting plane'', s'), (''Threads per inch'', t')]"
    using get_thread_info_Inr [OF th] by blast
  obtain d' f' sp' e' where tli: "tool_info = [(''Tool diameter'', d'), (''Number of flutes'', f'),
            (''Speed'', sp'), (''Feed'', e')]"
    using get_tool_info_Inr [OF tl] by blast
  have dd: "d' = d" using d by (simp add: tli dict_get_def)
  have mm: "m' = m" using m by (simp add: thi dict_get_def)
  define rs where "rs = toolpath_radii_loop (py_round ((m - d) / 2.0) 5) (py_round ((M - m) / 2.0) 5) fs [] 0.0"
  have rs: "get_toolpath_radii thread_info fs d = Inr rs"
    by (simp add: get_toolpath_radii_def thi mm dict_get_def rs_def)
  have lr: "length rs = length fs" using get_toolpath_radii_length [OF rs] .
  have ne: "rs \<noteq> []" using get_pass_percentages_nonempty [OF ps] lr by auto
  define R where "R = round_half_even (sp' * 3.82 / d)"
  define B where "B = (\<lambda>lead_arc adjust radius.
      write_body str_float lead_arc (of_int R * e' * f') adjust 15.0 s'
        (- (dp' + py_round (0.125 * (1.0 / t')) 4)) radius (py_round (0.125 * (1.0 / t')) 4)
        (1.0 / t'))"
  have g: "dict_get tool_info ''Speed'' = Inr sp'" "dict_get tool_info ''Feed'' = Inr e'"
    "dict_get tool_info ''Number of flutes'' = Inr f'"
    "dict_get thread_info ''Threads per inch'' = Inr t'"
    "dict_get thread_info ''Thread depth'' = Inr dp'"
    "dict_get thread_info ''Starting plane'' = Inr s'"
    by (simp_all add: thi tli dict_get_def)
  have c: "(m < d) = False" "(N < 1) = False" using fit N by simp_all
  have main_eq: "main parse parse_int str_float (major, minor, dp, start, tp) (td, fl, sp, fd)
               number_of_passes finish_passes
      = (case main_loop B (get_lead_radii rs) (get_feed_adjustment rs d) (length rs) N 0 rs
                [write_begin R]
         of Inl e \<Rightarrow> Inl e | Inr written \<Rightarrow> Inr (written @ [write_end]))"
    unfolding main_def R_def B_def
    by (simp only: prod.case th tl sum.case d m ps fin option.case rs g c if_False Let_def)
  have "length (get_lead_radii rs) = length rs" "length (get_feed_adjustment rs d) = length rs"
    "0 + length rs = length rs"
    by (simp_all add: get_lead_radii_def get_feed_adjustment_def)
  from main_loop_blocks [OF this, of B N "[write_begin R]"] ne
  obtain blocks where b:
    "main_loop B (get_lead_radii rs) (get_feed_adjustment rs d) (length rs) N 0 rs
        [write_begin R] = Inr ([write_begin R] @ blocks)"
    "length blocks = length rs + nat (N - 1)"
    "drop (length rs - 1) blocks = replicate (Suc (nat (N - 1))) (blocks ! (length rs - 1))"
    by auto
  have SN: "Suc (nat (N - 1)) = nat N" using N by simp
  have "main parse parse_int str_float (major, minor, dp, start, tp) (td, fl, sp, fd)
               number_of_passes finish_passes
          = Inr (write_begin R # blocks @ [write_end])"
    unfolding main_eq b(1) by simp
  then show ?thesis
    using b(2,3) lr SN by (intro exI [of _ R] exI [of _ blocks]) simp
qed

section \<open>Claims\<close>

subsection \<open>C6: the pass-fraction table\<close>

text \<open>
  C6. The table returns \<open>[1.0]\<close> for 1 pass, \<open>[0.65, 0.35]\<close> for 2, \<open>[0.50, 0.30, 0.20]\<close>
  for 3 and \<open>[0.40, 0.27, 0.20, 0.13]\<close> for 4, and each list sums to 1.0 within \<open>1e-9\<close>.
  \<open>get_pass_percentages\<close> of tmill_dict.py returns the same list as
  \<open>calc_pass_percentages\<close> whenever its input string converts to one of these counts.
\<close>

theorem pass_fraction_table:
  "calc_pass_percentages 1 = Inr [1.0] \<and> sums_to_one [1.0]
   \<and> calc_pass_percentages 2 = Inr [0.65, 0.35] \<and> sums_to_one [0.65, 0.35]
   \<and> calc_pass_percentages 3 = Inr [0.50, 0.30, 0.20] \<and> sums_to_one [0.50, 0.30, 0.20]
   \<and> calc_pass_percentages 4 = Inr [0.40, 0.27, 0.20, 0.13]
   \<and> sums_to_one [0.40, 0.27, 0.20, 0.13]
   \<and> (parse_int s = Some n \<and> n \<in> {1, 2, 3, 4}
        \<longrightarrow> get_pass_percentages parse_int s = calc_pass_percentages n)"
  by (auto simp: calc_pass_percentages_def sums_to_one_def get_pass_percentages_def)

text \<open>The dictionary version at the input \<open>'3'\<close>.\<close>

theorem pass_fraction_table_witness:
  "get_pass_percentages (map_of [(''3'', 3)]) ''3'' = Inr [0.50, 0.30, 0.20]"
  using pass_fraction_table [of "map_of [(''3'', 3)]" "''3''" 3]
  by (simp add: calc_pass_percentages_def)

subsection \<open>C7: pass counts outside 1 to 4\<close>

text \<open>
  C7. A pass count outside \<open>{1, 2, 3, 4}\<close> makes the lookup raise the \<open>ValueError\<close> of the
  program (not a conversion error), and a pass count in \<open>{1, 2, 3, 4}\<close> makes it return a
  list of that many fractions; in thread_mill.py for the integer passed, in tmill_dict.py
  for the integer the input string converts to.
\<close>

theorem pass_count_check:
  "(n \<notin> {1, 2, 3, 4} \<longrightarrow>
      calc_pass_percentages n
        = Inl (ValueError (str_int n @ '' is not a valid option for number of passes.'')))
   \<and> (n \<in> {1, 2, 3, 4} \<longrightarrow> (\<exists>fs. calc_pass_percentages n = Inr fs \<and> int (length fs) = n))
   \<and> (parse_int s = Some n \<and> n \<notin> {1, 2, 3, 4} \<longrightarrow>
        get_pass_percentages parse_int s
          = Inl (ValueError (s @ '' is not a valid option for number of passes'')))
   \<and> (parse_int s = Some n \<and> n \<in> {1, 2, 3, 4} \<longrightarrow>
        (\<exists>fs. get_pass_percentages parse_int s = Inr fs \<and> int (length fs) = n))"
  by (auto simp: calc_pass_percentages_def get_pass_percentages_def)

text \<open>At 0 and 5 the lookup raises, at 3 and 4 it returns.\<close>

theorem pass_count_check_witness:
  "calc_pass_percentages 0 = Inl (ValueError ''0 is not a valid option for number of passes.'')
   \<and> calc_pass_percentages 5 = Inl (ValueError ''5 is not a valid option for number of passes.'')
   \<and> (\<exists>fs. calc_pass_percentages 3 = Inr fs \<and> int (length fs) = 3)
   \<and> get_pass_percentages (map_of [(''0'', 0), (''4'', 4)]) ''0''
        = Inl (ValueError ''0 is not a valid option for number of passes'')
   \<and> (\<exists>fs. get_pass_percentages (map_of [(''0'', 0), (''4'', 4)]) ''4'' = Inr fs
          \<and> int (length fs) = 4)"
  using pass_count_check [of 0 "map_of [(''0'', 0), (''4'', 4)]" "''0''"]
    pass_count_check [of 5 "map_of [(''0'', 0), (''4'', 4)]" "''0''"]
    pass_count_check [of 3 "map_of [(''0'', 0), (''4'', 4)]" "''0''"]
    pass_count_check [of 4 "map_of [(''0'', 0), (''4'', 4)]" "''4''"]
  by (simp add: str_int_def)

subsection \<open>C1: the radius of the last pass\<close>




subsection \<open>C4: the radii from pass to pass\<close>




subsection \<open>C8: the feed-rate adjustment\<close>



subsection \<open>C9: the lead arc\<close>

text \<open>
  C9. In a plan built by \<open>BodyDetails\<close> there is one lead arc per radius, and the lead arc
  of every pass is \<open>round(radius * sin(45 degrees), 4)\<close>; \<open>get_lead_radii\<close> computes the
  same from the same radii.
\<close>

theorem lead_arc_radius_rounded:
  assumes "BodyDetails_init parse thread0 tool0 n = Inr (toolpath, thread, tool)"
    and "i < length (radii toolpath)"
  shows "length (lead_arcs toolpath) = length (radii toolpath)
       \<and> lead_arcs toolpath ! i = py_round (radii toolpath ! i * sin_45) 4
       \<and> length (get_lead_radii (radii toolpath)) = length (radii toolpath)
       \<and> get_lead_radii (radii toolpath) ! i = py_round (radii toolpath ! i * sin_45) 4"
  using assms(2) BodyDetails_init_Inr(6) [OF assms(1)]
  by (simp add: calc_lead_arcs_map get_lead_radii_def)

text \<open>The end-to-end example: radius 0.125, lead arc 0.0884.\<close>

theorem lead_arc_radius_rounded_witness:
  "lead_arcs (fst (projr (BodyDetails_init no_parse (example_raw_thread 0.5 0.438)
                            (example_tool 0.25 1528) 1))) = [0.0884]
   \<and> get_lead_radii [0.125] ! 0 = py_round (0.125 * sin_45) 4"
proof -
  let ?tp = "\<lparr>passes = [1], radii = [0.125], lead_arcs = [0.0884], feed_rates = [3.056],
      top_plane = 0.25, lead_z = 0.0062, start_z = - 0.0562\<rparr>"
  have b: "BodyDetails_init no_parse (example_raw_thread 0.5 0.438) (example_tool 0.25 1528) 1
      = Inr (?tp, example_thread 0.5 0.438, example_valid_tool 0.25 1528)"
    by code_simp
  have i: "0 < length (radii ?tp)" by simp
  show ?thesis
    using lead_arc_radius_rounded [OF b i] b by simp
qed

subsection \<open>C10: validation looks at every attribute\<close>

text \<open>
  C10. \<open>CuttingTool.validate\<close> raises whenever the attribute \<open>rpm\<close> does not convert to a
  float above zero; in particular it raises on every tool that comes straight from the
  constructor, and when the four arguments are positive floats the error names \<open>rpm\<close>.
  Likewise \<open>ScrewThread.validate\<close> raises whenever \<open>tpi\<close> does not convert to a float
  above zero, and on a thread straight from the constructor with five valid arguments the
  error names \<open>tpi\<close>.
\<close>

theorem validate_checks_every_attribute:
  "((\<forall>r. py_float parse (rpm tool0) = Inr r \<longrightarrow> r \<le> 0)
      \<longrightarrow> (\<exists>e. CuttingTool_validate parse tool0 = Inl e))
   \<and> (\<exists>e. CuttingTool_validate parse (CuttingTool_init v1 v2 v3 v4) = Inl e)
   \<and> (0 < d \<and> 0 < f \<and> 0 < s \<and> 0 < fd
        \<longrightarrow> CuttingTool_validate parse
              (CuttingTool_init (PyFloat d) (PyFloat f) (PyFloat s) (PyFloat fd))
            = Inl (ValueError ''rpm must be > 0.0''))
   \<and> ((\<forall>t. py_float parse (tpi thread0) = Inr t \<longrightarrow> t \<le> 0)
        \<longrightarrow> (\<exists>e. ScrewThread_validate parse thread0 = Inl e))
   \<and> (0 < M \<and> 0 < m \<and> m < M \<and> 0 < dp \<and> 0 < p
        \<longrightarrow> ScrewThread_validate parse
              (ScrewThread_init (PyFloat M) (PyFloat m) (PyFloat dp) (PyFloat sp) (PyFloat p))
            = Inl (ValueError ''tpi must be > 0.0''))"
proof -
  have a: "(\<forall>r. py_float parse (rpm tool0) = Inr r \<longrightarrow> r \<le> 0)
      \<longrightarrow> (\<exists>e. CuttingTool_validate parse tool0 = Inl e)"
    unfolding CuttingTool_validate_def validate_item_def
    by (auto split: sum.splits)
  have b: "\<exists>e. CuttingTool_validate parse (CuttingTool_init v1 v2 v3 v4) = Inl e"
    unfolding CuttingTool_validate_def validate_item_def CuttingTool_init_def py_float_def
    by (auto split: sum.splits)
  have c: "0 < d \<and> 0 < f \<and> 0 < s \<and> 0 < fd
        \<longrightarrow> CuttingTool_validate parse
              (CuttingTool_init (PyFloat d) (PyFloat f) (PyFloat s) (PyFloat fd))
            = Inl (ValueError ''rpm must be > 0.0'')"
    by (simp add: CuttingTool_validate_def validate_item_def CuttingTool_init_def py_float_def)
  have d: "(\<forall>t. py_float parse (tpi thread0) = Inr t \<longrightarrow> t \<le> 0)
        \<longrightarrow> (\<exists>e. ScrewThread_validate parse thread0 = Inl e)"
    unfolding ScrewThread_validate_def validate_item_def
    by (auto split: sum.splits)
  have e: "0 < M \<and> 0 < m \<and> m < M \<and> 0 < dp \<and> 0 < p
        \<longrightarrow> ScrewThread_validate parse
              (ScrewThread_init (PyFloat M) (PyFloat m) (PyFloat dp) (PyFloat sp) (PyFloat p))
            = Inl (ValueError ''tpi must be > 0.0'')"
    by (simp add: ScrewThread_validate_def validate_item_def ScrewThread_init_def py_float_def)
  show ?thesis using a b c d e by blast
qed

text \<open>A tool with rpm 0, a thread with tpi 0, and the two constructors.\<close>

theorem validate_checks_every_attribute_witness:
  "(\<exists>e. CuttingTool_validate no_parse (example_tool 0.25 0) = Inl e)
   \<and> CuttingTool_validate no_parse
        (CuttingTool_init (PyFloat 0.25) (PyFloat 4) (PyFloat 100) (PyFloat 0.001))
      = Inl (ValueError ''rpm must be > 0.0'')
   \<and> (\<exists>e. ScrewThread_validate no_parse
              ((example_raw_thread 0.5 0.438) \<lparr>tpi := PyFloat 0\<rparr>) = Inl e)
   \<and> ScrewThread_validate no_parse
        (ScrewThread_init (PyFloat 0.5) (PyFloat 0.438) (PyFloat 0.05) (PyFloat 0.25) (PyFloat 0.05))
      = Inl (ValueError ''tpi must be > 0.0'')"
proof -
  have r: "\<forall>r. py_float no_parse (rpm (example_tool 0.25 0)) = Inr r \<longrightarrow> r \<le> 0"
    by (simp add: py_float_def example_tool_def)
  have t: "\<forall>t. py_float no_parse (tpi ((example_raw_thread 0.5 0.438) \<lparr>tpi := PyFloat 0\<rparr>)) = Inr t
             \<longrightarrow> t \<le> 0"
    by (simp add: py_float_def example_raw_thread_def)
  have p: "(0::rat) < 0.25 \<and> (0::rat) < 4 \<and> (0::rat) < 100 \<and> (0::rat) < 0.001" by simp
  have q: "(0::rat) < 0.5 \<and> (0::rat) < 0.438 \<and> (0.438::rat) < 0.5 \<and> (0::rat) < 0.05 \<and> (0::rat) < 0.05"
    by simp
  show ?thesis
    using validate_checks_every_attribute
      [of no_parse "example_tool 0.25 0" _ _ _ _ "0.25" 4 100 "0.001"
          "(example_raw_thread 0.5 0.438) \<lparr>tpi := PyFloat 0\<rparr>" "0.5" "0.438" "0.05" "0.05" "0.25"]
      r t p q
    by blast
qed

subsection \<open>C2: a tool as wide as the minor diameter\<close>

text \<open>
  C2. The code raises only when the tool is wider than the minor diameter. With a tool of
  exactly the minor diameter (0.438) \<open>BodyDetails\<close> builds a plan, whose base radius is 0
  and whose single radius is 0.031, and \<open>main\<close> of tmill_dict.py writes a program; with a
  wider tool (0.5) \<open>BodyDetails\<close> raises.
\<close>

theorem tool_as_wide_as_minor_diameter_accepted:
  "map_sum id (radii \<circ> fst)
     (BodyDetails_init no_parse (example_raw_thread 0.5 0.438) (example_tool 0.438 872) 1)
     = Inr [0.031]
   \<and> base_radius_of (example_thread 0.5 0.438) 0.438 = 0
   \<and> BodyDetails_init no_parse (example_raw_thread 0.5 0.438) (example_tool 0.5 764) 1
       = Inl (ValueError ''Tool diameter must be less than Minor diameter.'')
   \<and> \<not> isl (main example_parse example_parse_int example_str
               (''0.5'', ''0.438'', ''0.05'', ''0.25'', ''20'') (''0.438'', ''4'', ''100'', ''0.001'')
               ''1'' ''1'')"
  by code_simp

subsection \<open>C3: minor diameter equal to major diameter\<close>

text \<open>
  C3. With both diameters 0.5, \<open>get_thread_info\<close> of tmill_dict.py returns the
  dictionary, while \<open>ScrewThread.validate\<close> of thread_mill.py raises.
\<close>

theorem equal_diameters_accepted_by_get_thread_info:
  "get_thread_info example_parse ''0.5'' ''0.5'' ''0.05'' ''0.25'' ''20''
     = Inr (example_thread_info 0.5 0.5)
   \<and> ScrewThread_validate no_parse (example_raw_thread 0.5 0.5)
     = Inl (ValueError ''Minor diameter must be less than Major diameter'')"
  by code_simp

subsection \<open>C5: finish passes\<close>



end
